theory Spec2Isabelle
  imports Complex_Main "HOL-Library.Multiset"
begin

section \<open>EcoCollect: the request handlers of server.js\<close>

text \<open>
  The server is a set of Express handlers over three Mongoose collections. Each handler is
  modelled as a function from the store (and the request) to a response and the new store.
  The body of a handler's \<^verbatim>\<open>try\<close> block returns either the JavaScript error it
  throws or the response it sends; \<open>try_catch\<close> is the \<^verbatim>\<open>catch\<close> block that every
  handler shares.

  Modelling choices:
  \<^item> a JavaScript Number that holds a count or an XP total is an \<open>int\<close> or \<open>nat\<close>; the
    weight and carbon figures are \<open>rat\<close>. The only factors the code uses are 0.5, 2.5 and
    10, so every product is a multiple of 1/4 and is exact in a double for any count below
    \<open>2^50\<close>; \<open>Math.round\<close> rounds half up;
  \<^item> a collection is the list of its documents in insertion order (the store-native order);
  \<^item> request bodies carry the fields of the API as strings, except the password of a
    registration or a login, which is any JSON value or absent: bcryptjs rejects what is
    not a string, and the handler answers that like any other error;
  \<^item> \<open>bcrypt.hash\<close> and \<open>bcrypt.compare\<close>, the clock and the ObjectId generator are
    parameters;
  \<^item> failures of the connection to the store are not modelled.
\<close>

subsection \<open>Documents (the three Mongoose schemas)\<close>

type_synonym oid = nat
type_synonym date = nat

record user_doc =
  user_id :: oid
  email :: string
  password :: string
  xp :: int
  streak :: int
  badges :: "string list"
  createdAt :: date

record pickup_doc =
  pickup_id :: oid
  pickup_user :: string
  pickup_date :: string
  location :: string
  pickupType :: string
  time :: string
  phone :: string
  materials :: "string list"
  pickup_notes :: string
  status :: string
  pickup_createdAt :: date

record pledge_doc =
  pledge_id :: oid
  pledge_user :: string
  pledge :: string
  pledge_createdAt :: date

record db =
  users :: "user_doc list"
  pickups :: "pickup_doc list"
  pledges :: "pledge_doc list"

subsection \<open>Responses\<close>

datatype json =
    JNum rat
  | JStr string
  | JOid oid
  | JDate date
  | JArr "json list"
  | JObj "(string \<times> json) list"

record response =
  code :: nat
  body :: json

datatype js_error =
    Error string
  | TypeError string
  | ValidationError string
  | CastError string
  | MongoServerError string

fun message :: "js_error \<Rightarrow> string" where
  "message (Error m) = m"
| "message (TypeError m) = m"
| "message (ValidationError m) = m"
| "message (CastError m) = m"
| "message (MongoServerError m) = m"

text \<open>\<^verbatim>\<open>res.status(c).json(b)\<close>; \<^verbatim>\<open>res.json(b)\<close> alone answers 200.\<close>

definition respond :: "nat \<Rightarrow> json \<Rightarrow> response" where
  "respond c b = \<lparr>code = c, body = b\<rparr>"

text \<open>The \<^verbatim>\<open>catch (error)\<close> block, identical in every handler.\<close>

definition try_catch :: "(js_error + response) \<times> db \<Rightarrow> response \<times> db" where
  "try_catch r =
     (case fst r of
        Inl error \<Rightarrow>
          (respond 500 (JObj [(''message'', JStr ''Server error''),
                              (''error'', JStr (message error))]), snd r)
      | Inr res \<Rightarrow> (res, snd r))"

fun json_keys :: "json \<Rightarrow> string list" where
  "json_keys (JArr xs) = concat (map json_keys xs)"
| "json_keys (JObj kvs) = map fst kvs @ concat (map (\<lambda>kv. json_keys (snd kv)) kvs)"
| "json_keys _ = []"

subsection \<open>Document serialisation\<close>

definition strings_json :: "string list \<Rightarrow> json" where
  "strings_json xs = JArr (map JStr xs)"

definition pickup_json :: "pickup_doc \<Rightarrow> json" where
  "pickup_json p =
     JObj [(''user'', JStr (pickup_user p)),
           (''date'', JStr (pickup_date p)),
           (''location'', JStr (location p)),
           (''pickupType'', JStr (pickupType p)),
           (''time'', JStr (time p)),
           (''phone'', JStr (phone p)),
           (''materials'', strings_json (materials p)),
           (''notes'', JStr (pickup_notes p)),
           (''status'', JStr (status p)),
           (''_id'', JOid (pickup_id p)),
           (''createdAt'', JDate (pickup_createdAt p)),
           (''__v'', JNum 0)]"

definition pledge_json :: "pledge_doc \<Rightarrow> json" where
  "pledge_json p =
     JObj [(''user'', JStr (pledge_user p)),
           (''pledge'', JStr (pledge p)),
           (''_id'', JOid (pledge_id p)),
           (''createdAt'', JDate (pledge_createdAt p)),
           (''__v'', JNum 0)]"

subsection \<open>Store operations\<close>

text \<open>\<^verbatim>\<open>User.findOne({ email })\<close>: the first document that matches, or null.\<close>

definition findOne :: "string \<Rightarrow> user_doc list \<Rightarrow> user_doc option" where
  "findOne e us = find (\<lambda>u. email u = e) us"

text \<open>\<^verbatim>\<open>User.findOneAndUpdate({ email }, update)\<close>: updates the first match, no-op
  when nothing matches.\<close>

fun findOneAndUpdate :: "string \<Rightarrow> (user_doc \<Rightarrow> user_doc) \<Rightarrow> user_doc list \<Rightarrow> user_doc list" where
  "findOneAndUpdate e f [] = []"
| "findOneAndUpdate e f (u # us) =
     (if email u = e then f u # us else u # findOneAndUpdate e f us)"

text \<open>\<^verbatim>\<open>user.save()\<close>: the \<^verbatim>\<open>required\<close> validators reject an empty string, the unique
  index rejects a second document with the same email.\<close>

definition save_user :: "user_doc \<Rightarrow> db \<Rightarrow> js_error + db" where
  "save_user u s =
     (if email u = [] then
        Inl (ValidationError ''User validation failed: email: Path `email` is required.'')
      else if password u = [] then
        Inl (ValidationError ''User validation failed: password: Path `password` is required.'')
      else if findOne (email u) (users s) \<noteq> None then
        Inl (MongoServerError ''E11000 duplicate key error'')
      else Inr (s\<lparr>users := users s @ [u]\<rparr>))"

definition save_pickup :: "pickup_doc \<Rightarrow> db \<Rightarrow> js_error + db" where
  "save_pickup p s =
     (if pickup_user p = [] then
        Inl (ValidationError ''Pickup validation failed: user: Path `user` is required.'')
      else Inr (s\<lparr>pickups := pickups s @ [p]\<rparr>))"

definition save_pledge :: "pledge_doc \<Rightarrow> db \<Rightarrow> db" where
  "save_pledge p s = s\<lparr>pledges := pledges s @ [p]\<rparr>"

text \<open>\<^verbatim>\<open>Pickup.findByIdAndUpdate(id, { status: 'Completed' }, { new: true })\<close>: the updated
  document (or null) and the new collection.\<close>

fun findByIdAndUpdate :: "oid \<Rightarrow> (pickup_doc \<Rightarrow> pickup_doc) \<Rightarrow> pickup_doc list
    \<Rightarrow> pickup_doc option \<times> pickup_doc list" where
  "findByIdAndUpdate i f [] = (None, [])"
| "findByIdAndUpdate i f (p # ps) =
     (if pickup_id p = i then (Some (f p), f p # ps)
      else (case findByIdAndUpdate i f ps of (r, ps') \<Rightarrow> (r, p # ps')))"

text \<open>\<^verbatim>\<open>Math.round\<close>: the nearest integer, a half rounded up.\<close>

definition Math_round :: "rat \<Rightarrow> int" where
  "Math_round x = \<lfloor>x + 1 / 2\<rfloor>"

text \<open>\<^verbatim>\<open>Array.prototype.join\<close>.\<close>

fun join :: "string \<Rightarrow> string list \<Rightarrow> string" where
  "join sep [] = []"
| "join sep [x] = x"
| "join sep (x # y # ys) = x @ sep @ join sep (y # ys)"

subsection \<open>Gamification: impact figures and badges (the stats handler's computation)\<close>

record impact =
  itemsRecycled :: nat
  totalWeight :: rat
  carbonOffset :: int

text \<open>Lines 199-202: the \<^verbatim>\<open>forEach\<close> accumulates the material counts.\<close>

definition computeImpact :: "pickup_doc list \<Rightarrow> impact" where
  "computeImpact ps =
     (let items = fold (\<lambda>p n. n + length (materials p)) ps 0;
          weight = of_nat items * 0.5;
          carbon = Math_round (weight * 2.5)
      in \<lparr>itemsRecycled = items, totalWeight = weight, carbonOffset = carbon\<rparr>)"

text \<open>Line 220: \<^verbatim>\<open>Math.round(totalWeight * 10) / 10\<close>, the weight as the response shows it.\<close>

definition displayWeight :: "rat \<Rightarrow> rat" where
  "displayWeight w = of_int (Math_round (w * 10)) / 10"

text \<open>Lines 205-208: three independent tests, each pushing onto the array.\<close>

definition deriveBadges :: "int \<Rightarrow> string list" where
  "deriveBadges x =
     (let b0 = [];
          b1 = (if x \<ge> 100 then b0 @ [''Plastic Buster''] else b0);
          b2 = (if x \<ge> 200 then b1 @ [''Paper Saver''] else b1);
          b3 = (if x \<ge> 500 then b2 @ [''Eco Warrior''] else b2)
      in b3)"

text \<open>Lines 211-216: the stored badges are replaced when more badges were derived than
  are stored.\<close>

definition reconcileBadges :: "string \<Rightarrow> user_doc \<Rightarrow> string list \<Rightarrow> db \<Rightarrow> db" where
  "reconcileBadges userEmail user bs s =
     (if length bs > length (badges user)
      then s\<lparr>users := findOneAndUpdate userEmail (\<lambda>u. u\<lparr>badges := bs\<rparr>) (users s)\<rparr>
      else s)"

subsection \<open>Request bodies\<close>

text \<open>A field of a parsed JSON body, as far as \<^verbatim>\<open>typeof\<close> tells values apart;
  \<open>JSUndefined\<close> is a field the body does not have.\<close>

datatype js_value =
    JSUndefined
  | JSNull
  | JSBoolean bool
  | JSNumber rat
  | JSString string
  | JSObject

fun typeof :: "js_value \<Rightarrow> string" where
  "typeof JSUndefined = ''undefined''"
| "typeof JSNull = ''object''"
| "typeof (JSBoolean b) = ''boolean''"
| "typeof (JSNumber n) = ''number''"
| "typeof (JSString x) = ''string''"
| "typeof JSObject = ''object''"

record credentials =
  body_email :: string
  body_password :: js_value

text \<open>\<^verbatim>\<open>bcrypt.hash(s, 10)\<close> and \<^verbatim>\<open>bcrypt.compare(s, hash)\<close> of bcryptjs: an argument
  \<open>s\<close> that is not a string rejects the promise with the error ``Illegal arguments'' and
  the two types; on a string the result is that of the parameter (\<open>hash\<close>, \<open>compare\<close>).
  The stored hash is always a string.\<close>

definition bcrypt_hash :: "(string \<Rightarrow> string) \<Rightarrow> js_value \<Rightarrow> js_error + string" where
  "bcrypt_hash hash s =
     (case s of
        JSString pw \<Rightarrow> Inr (hash pw)
      | _ \<Rightarrow> Inl (Error (''Illegal arguments: '' @ typeof s @ '', number'')))"

definition bcrypt_compare ::
  "(string \<Rightarrow> string \<Rightarrow> bool) \<Rightarrow> js_value \<Rightarrow> string \<Rightarrow> js_error + bool" where
  "bcrypt_compare compare s h =
     (case s of
        JSString pw \<Rightarrow> Inr (compare pw h)
      | _ \<Rightarrow> Inl (Error (''Illegal arguments: '' @ typeof s @ '', string'')))"

record pickup_body =
  b_user :: string
  b_date :: string
  b_location :: string
  b_pickupType :: string
  b_time :: string
  b_phone :: string
  b_materials :: "string list"
  b_notes :: string

record pledge_body =
  pb_user :: string
  pb_pledge :: string

subsection \<open>Handlers\<close>

text \<open>POST /api/register. \<open>hash\<close> is what \<^verbatim>\<open>bcrypt.hash(_, 10)\<close> gives on a string.\<close>

definition post_register_body ::
  "(string \<Rightarrow> string) \<Rightarrow> date \<Rightarrow> oid \<Rightarrow> db \<Rightarrow> credentials \<Rightarrow> (js_error + response) \<times> db" where
  "post_register_body hash now new_id s req =
     (case findOne (body_email req) (users s) of
        Some existingUser \<Rightarrow>
          (Inr (respond 400 (JObj [(''message'', JStr ''User already exists'')])), s)
      | None \<Rightarrow>
          (case bcrypt_hash hash (body_password req) of
             Inl e \<Rightarrow> (Inl e, s)
           | Inr hashedPassword \<Rightarrow>
               (let user = \<lparr>user_id = new_id, email = body_email req,
                            password = hashedPassword, xp = 0, streak = 0, badges = [],
                            createdAt = now\<rparr>
                in case save_user user s of
                     Inl e \<Rightarrow> (Inl e, s)
                   | Inr s' \<Rightarrow>
                       (Inr (respond 201
                          (JObj [(''message'', JStr ''User registered successfully'')])),
                        s'))))"

definition post_register ::
  "(string \<Rightarrow> string) \<Rightarrow> date \<Rightarrow> oid \<Rightarrow> db \<Rightarrow> credentials \<Rightarrow> response \<times> db" where
  "post_register hash now new_id s req = try_catch (post_register_body hash now new_id s req)"

text \<open>POST /api/login. \<open>compare\<close> is what \<^verbatim>\<open>bcrypt.compare\<close> gives on a string; it
  is called only when the user was found.\<close>

definition post_login_body ::
  "(string \<Rightarrow> string \<Rightarrow> bool) \<Rightarrow> db \<Rightarrow> credentials \<Rightarrow> (js_error + response) \<times> db" where
  "post_login_body compare s req =
     (case findOne (body_email req) (users s) of
        None \<Rightarrow> (Inr (respond 400 (JObj [(''message'', JStr ''Invalid credentials'')])), s)
      | Some user \<Rightarrow>
          (case bcrypt_compare compare (body_password req) (password user) of
             Inl e \<Rightarrow> (Inl e, s)
           | Inr isMatch \<Rightarrow>
               if \<not> isMatch
               then (Inr (respond 400 (JObj [(''message'', JStr ''Invalid credentials'')])), s)
               else (Inr (respond 200
                       (JObj [(''message'', JStr ''Login successful''),
                              (''user'', JObj [(''email'', JStr (email user)),
                                               (''xp'', JNum (of_int (xp user))),
                                               (''streak'', JNum (of_int (streak user))),
                                               (''badges'', strings_json (badges user))])])),
                     s)))"

definition post_login ::
  "(string \<Rightarrow> string \<Rightarrow> bool) \<Rightarrow> db \<Rightarrow> credentials \<Rightarrow> response \<times> db" where
  "post_login compare s req = try_catch (post_login_body compare s req)"

text \<open>POST /api/pickups. \<^verbatim>\<open>new Pickup(req.body)\<close> fills in the id, the default status and
  the creation date.\<close>

definition new_Pickup :: "date \<Rightarrow> oid \<Rightarrow> pickup_body \<Rightarrow> pickup_doc" where
  "new_Pickup now new_id req =
     \<lparr>pickup_id = new_id, pickup_user = b_user req, pickup_date = b_date req,
      location = b_location req, pickupType = b_pickupType req, time = b_time req,
      phone = b_phone req, materials = b_materials req, pickup_notes = b_notes req,
      status = ''Scheduled'', pickup_createdAt = now\<rparr>"

definition post_pickups_body ::
  "date \<Rightarrow> oid \<Rightarrow> db \<Rightarrow> pickup_body \<Rightarrow> (js_error + response) \<times> db" where
  "post_pickups_body now new_id s req =
     (let pickup = new_Pickup now new_id req
      in case save_pickup pickup s of
           Inl e \<Rightarrow> (Inl e, s)
         | Inr s1 \<Rightarrow>
             (let s2 = s1\<lparr>users := findOneAndUpdate (b_user req)
                                      (\<lambda>u. u\<lparr>xp := xp u + 10\<rparr>) (users s1)\<rparr>
              in (Inr (respond 201 (JObj [(''message'', JStr ''Pickup scheduled successfully''),
                                          (''pickup'', pickup_json pickup)])),
                  s2)))"

definition post_pickups :: "date \<Rightarrow> oid \<Rightarrow> db \<Rightarrow> pickup_body \<Rightarrow> response \<times> db" where
  "post_pickups now new_id s req = try_catch (post_pickups_body now new_id s req)"

text \<open>GET /api/pickups/:userEmail, newest first.\<close>

definition get_pickups :: "db \<Rightarrow> string \<Rightarrow> response \<times> db" where
  "get_pickups s userEmail =
     try_catch
       (let found = sort_key (\<lambda>p. - int (pickup_createdAt p))
                      (filter (\<lambda>p. pickup_user p = userEmail) (pickups s))
        in (Inr (respond 200 (JArr (map pickup_json found))), s))"

text \<open>PUT /api/pickups/:id/complete. The path segment is cast to an ObjectId; \<open>None\<close> is a
  segment that is not one.\<close>

definition put_complete_body :: "db \<Rightarrow> oid option \<Rightarrow> (js_error + response) \<times> db" where
  "put_complete_body s param_id =
     (case param_id of
        None \<Rightarrow> (Inl (CastError ''Cast to ObjectId failed''), s)
      | Some i \<Rightarrow>
          (case findByIdAndUpdate i (\<lambda>p. p\<lparr>status := ''Completed''\<rparr>) (pickups s) of
             (None, ps) \<Rightarrow>
               (Inr (respond 404 (JObj [(''message'', JStr ''Pickup not found'')])),
                s\<lparr>pickups := ps\<rparr>)
           | (Some pickup, ps) \<Rightarrow>
               (let s1 = s\<lparr>pickups := ps\<rparr>;
                    s2 = s1\<lparr>users := findOneAndUpdate (pickup_user pickup)
                                       (\<lambda>u. u\<lparr>xp := xp u + 20, streak := streak u + 1\<rparr>)
                                       (users s1)\<rparr>
                in (Inr (respond 200 (JObj [(''message'', JStr ''Pickup marked as completed''),
                                            (''pickup'', pickup_json pickup)])),
                    s2))))"

definition put_complete :: "db \<Rightarrow> oid option \<Rightarrow> response \<times> db" where
  "put_complete s param_id = try_catch (put_complete_body s param_id)"

text \<open>POST /api/pledges.\<close>

definition post_pledges_body ::
  "date \<Rightarrow> oid \<Rightarrow> db \<Rightarrow> pledge_body \<Rightarrow> (js_error + response) \<times> db" where
  "post_pledges_body now new_id s req =
     (let pledge = \<lparr>pledge_id = new_id, pledge_user = pb_user req, pledge = pb_pledge req,
                     pledge_createdAt = now\<rparr>;
          s1 = save_pledge pledge s;
          s2 = s1\<lparr>users := findOneAndUpdate (pb_user req)
                                (\<lambda>u. u\<lparr>xp := xp u + 5\<rparr>) (users s1)\<rparr>
      in (Inr (respond 201 (JObj [(''message'', JStr ''Pledge added successfully''),
                                  (''pledge'', pledge_json pledge)])),
          s2))"

definition post_pledges :: "date \<Rightarrow> oid \<Rightarrow> db \<Rightarrow> pledge_body \<Rightarrow> response \<times> db" where
  "post_pledges now new_id s req = try_catch (post_pledges_body now new_id s req)"

text \<open>GET /api/pledges: the 20 newest.\<close>

definition get_pledges :: "db \<Rightarrow> response \<times> db" where
  "get_pledges s =
     try_catch
       (let found = take 20 (sort_key (\<lambda>p. - int (pledge_createdAt p)) (pledges s))
        in (Inr (respond 200 (JArr (map pledge_json found))), s))"

text \<open>GET /api/stats/:userEmail. Reading \<^verbatim>\<open>user.xp\<close> when \<^verbatim>\<open>findOne\<close> gave null throws a
  TypeError; nothing has been written at that point.\<close>

definition get_stats_body :: "db \<Rightarrow> string \<Rightarrow> (js_error + response) \<times> db" where
  "get_stats_body s userEmail =
     (let user = findOne userEmail (users s);
          found = filter (\<lambda>p. pickup_user p = userEmail) (pickups s);
          imp = computeImpact found
      in case user of
           None \<Rightarrow> (Inl (TypeError ''Cannot read properties of null (reading 'xp')''), s)
         | Some u \<Rightarrow>
             (let bs = deriveBadges (xp u);
                  s' = reconcileBadges userEmail u bs s;
                  stats = JObj
                    [(''itemsRecycled'', JNum (of_nat (itemsRecycled imp))),
                     (''totalWeight'', JNum (displayWeight (totalWeight imp))),
                     (''carbonOffset'', JNum (of_int (carbonOffset imp))),
                     (''xpEarned'', JNum (of_int (xp u))),
                     (''totalPickups'', JNum (of_nat (length found))),
                     (''streakDays'', JNum (of_int (streak u))),
                     (''badgesEarned'',
                        JStr (if length bs > 0 then join '', '' bs else ''None''))]
              in (Inr (respond 200 stats), s')))"

definition get_stats :: "db \<Rightarrow> string \<Rightarrow> response \<times> db" where
  "get_stats s userEmail = try_catch (get_stats_body s userEmail)"

text \<open>GET /api/community/leaderboard: the aggregation pipeline \<^verbatim>\<open>$project\<close>,
  \<^verbatim>\<open>$sort { xp: -1 }\<close>, \<^verbatim>\<open>$limit 10\<close>. The projection keeps \<^verbatim>\<open>_id\<close> and the three
  named fields. The store leaves the order of equal keys open; the model keeps them in
  store order.\<close>

record entry =
  entry_id :: oid
  entry_email :: string
  entry_xp :: int
  entry_badges :: "string list"

definition project :: "user_doc \<Rightarrow> entry" where
  "project u = \<lparr>entry_id = user_id u, entry_email = email u, entry_xp = xp u,
                entry_badges = badges u\<rparr>"

definition aggregate :: "user_doc list \<Rightarrow> entry list" where
  "aggregate us = take 10 (sort_key (\<lambda>e. - entry_xp e) (map project us))"

definition entry_json :: "entry \<Rightarrow> json" where
  "entry_json e =
     JObj [(''_id'', JOid (entry_id e)),
           (''email'', JStr (entry_email e)),
           (''xp'', JNum (of_int (entry_xp e))),
           (''badges'', strings_json (entry_badges e))]"

definition get_leaderboard :: "db \<Rightarrow> response \<times> db" where
  "get_leaderboard s =
     try_catch (Inr (respond 200 (JArr (map entry_json (aggregate (users s))))), s)"

text \<open>GET /api/community/goal.\<close>

definition get_goal :: "db \<Rightarrow> response \<times> db" where
  "get_goal s =
     try_catch
       (let totalItems = fold (\<lambda>p n. n + length (materials p)) (pickups s) 0;
            totalCarbon = Math_round (of_nat totalItems * 0.5 * 2.5)
        in (Inr (respond 200 (JObj [(''totalCarbon'', JNum (of_int totalCarbon))])), s))"

subsection \<open>The store the handlers maintain\<close>

text \<open>Every stored user has a non-empty email (the \<^verbatim>\<open>required\<close> validator) and no two
  users share one (the unique index).\<close>

definition wf_db :: "db \<Rightarrow> bool" where
  "wf_db s = ((\<forall>u \<in> set (users s). email u \<noteq> []) \<and> distinct (map email (users s)))"

text \<open>The store with every stored hash replaced (by \<open>h\<close> of its user).\<close>

definition rehash :: "(user_doc \<Rightarrow> string) \<Rightarrow> db \<Rightarrow> db" where
  "rehash h s = s\<lparr>users := map (\<lambda>u. u\<lparr>password := h u\<rparr>) (users s)\<rparr>"

subsection \<open>A small store, used to instantiate the theorems\<close>

definition demo_alice :: user_doc where
  "demo_alice = \<lparr>user_id = 1, email = ''alice@eco.org'', password = ''$2a$10$A'', xp = 0,
                  streak = 0, badges = [], createdAt = 1000\<rparr>"

definition demo_bob :: user_doc where
  "demo_bob = \<lparr>user_id = 2, email = ''bob@eco.org'', password = ''$2a$10$B'', xp = 150,
                streak = 3, badges = [], createdAt = 2000\<rparr>"

definition demo_pickup :: pickup_doc where
  "demo_pickup = \<lparr>pickup_id = 7, pickup_user = ''bob@eco.org'', pickup_date = ''2024-05-01'',
                   location = ''Home'', pickupType = ''Door'', time = ''10:00'', phone = ''555'',
                   materials = [''glass'', ''paper''], pickup_notes = [],
                   status = ''Scheduled'', pickup_createdAt = 3000\<rparr>"

definition demo_db :: db where
  "demo_db = \<lparr>users = [demo_alice, demo_bob], pickups = [demo_pickup], pledges = []\<rparr>"

definition demo_pickup_body :: pickup_body where
  "demo_pickup_body = \<lparr>b_user = ''bob@eco.org'', b_date = ''2024-06-01'', b_location = ''Home'',
                        b_pickupType = ''Door'', b_time = ''09:00'', b_phone = ''555'',
                        b_materials = [''metal''], b_notes = []\<rparr>"

definition demo_pledge_body :: pledge_body where
  "demo_pledge_body = \<lparr>pb_user = ''bob@eco.org'', pb_pledge = ''No plastic bags''\<rparr>"

definition demo_carol :: user_doc where
  "demo_carol = \<lparr>user_id = 3, email = ''carol@eco.org'', password = ''$2a$10$C'', xp = 250,
                  streak = 1, badges = [''Early Bird'', ''Founder''], createdAt = 2500\<rparr>"

definition demo_crowd :: "user_doc list" where
  "demo_crowd =
     map (\<lambda>n. \<lparr>user_id = n, email = replicate n CHR ''u'' @ ''@eco.org'', password = ''$2a$10$X'',
                xp = 10 * int n, streak = 0, badges = [], createdAt = 100 * n\<rparr>)
       [3, 11, 1, 12, 5, 7, 2, 9, 4, 10, 8, 6]"

definition demo_compare :: "string \<Rightarrow> string \<Rightarrow> bool" where
  "demo_compare pw h = (h = ''$2a$10$'' @ pw)"

section \<open>Properties\<close>

subsection \<open>Impact figures\<close>

lemma fold_materials:
  "fold (\<lambda>p n. n + length (materials p)) ps k = k + (\<Sum>p\<leftarrow>ps. length (materials p))"
  by (induction ps arbitrary: k) simp_all

lemma Math_round_round: "Math_round x = round x"
  by (simp add: Math_round_def round_def)




subsection \<open>Badges\<close>

text \<open>
  C3: deriveBadges depends on the XP alone; at 50, 100, 200 and 500 it gives the four
  sequences of the specification, and for every XP it gives the badges whose threshold the
  XP reaches, each tested on its own, in the order of the thresholds 100, 200, 500.
\<close>

theorem deriveBadges_thresholds:
  "deriveBadges 50 = []
   \<and> deriveBadges 100 = [''Plastic Buster'']
   \<and> deriveBadges 200 = [''Plastic Buster'', ''Paper Saver'']
   \<and> deriveBadges 500 = [''Plastic Buster'', ''Paper Saver'', ''Eco Warrior'']
   \<and> deriveBadges x =
       map snd (filter (\<lambda>tb. fst tb \<le> x)
         [(100, ''Plastic Buster''), (200, ''Paper Saver''), (500, ''Eco Warrior'')])"
  by (simp add: deriveBadges_def)

subsection \<open>Store operations\<close>

lemma findOne_first:
  "\<forall>v \<in> set pre. email v \<noteq> email u \<Longrightarrow> findOne (email u) (pre @ u # post) = Some u"
  by (induction pre) (simp_all add: findOne_def)

lemma findOne_split:
  assumes "findOne e us = Some u"
  shows "\<exists>pre post. us = pre @ u # post \<and> (\<forall>v \<in> set pre. email v \<noteq> e) \<and> email u = e"
  using assms
proof (induction us)
  case Nil
  then show ?case by (simp add: findOne_def)
next
  case (Cons a us)
  show ?case
  proof (cases "email a = e")
    case True
    with Cons.prems have "a = u" by (simp add: findOne_def)
    with True have "a # us = [] @ u # us \<and> (\<forall>v \<in> set []. email v \<noteq> e) \<and> email u = e"
      by simp
    then show ?thesis by blast
  next
    case False
    with Cons.prems have "findOne e us = Some u" by (simp add: findOne_def)
    from Cons.IH[OF this] obtain pre post where
      "us = pre @ u # post" "\<forall>v \<in> set pre. email v \<noteq> e" "email u = e" by blast
    with False have "a # us = (a # pre) @ u # post \<and> (\<forall>v \<in> set (a # pre). email v \<noteq> e) \<and> email u = e"
      by simp
    then show ?thesis by blast
  qed
qed

lemma findOneAndUpdate_first:
  "\<forall>v \<in> set pre. email v \<noteq> email u \<Longrightarrow>
   findOneAndUpdate (email u) f (pre @ u # post) = pre @ f u # post"
  by (induction pre) simp_all

lemma findOneAndUpdate_absent:
  "findOne e us = None \<Longrightarrow> findOneAndUpdate e f us = us"
  by (induction us) (simp_all add: findOne_def split: if_splits)

lemma wf_db_first:
  assumes "wf_db s" "users s = pre @ u # post"
  shows "\<forall>v \<in> set pre. email v \<noteq> email u" and "email u \<noteq> []"
proof -
  from assms have d: "distinct (map email (pre @ u # post))" and n: "\<forall>v \<in> set (pre @ u # post). email v \<noteq> []"
    by (simp_all add: wf_db_def)
  from d have "email u \<notin> email ` set pre" by simp
  then show "\<forall>v \<in> set pre. email v \<noteq> email u" by (metis imageI)
  from n show "email u \<noteq> []" by simp
qed

lemma findById_first:
  "find (\<lambda>p. pickup_id p = i) ps = Some p \<Longrightarrow> pickup_id (f p) = i \<Longrightarrow>
   fst (findByIdAndUpdate i f ps) = Some (f p)
   \<and> find (\<lambda>p. pickup_id p = i) (snd (findByIdAndUpdate i f ps)) = Some (f p)"
  by (induction ps) (auto split: if_splits prod.splits)

lemma post_pickups_users:
  assumes "\<forall>v \<in> set pre. email v \<noteq> email u" "email u \<noteq> []" "users s = pre @ u # post"
    "b_user req = email u"
  shows "post_pickups now i s req =
     (respond 201 (JObj [(''message'', JStr ''Pickup scheduled successfully''),
                         (''pickup'', pickup_json (new_Pickup now i req))]),
      s\<lparr>pickups := pickups s @ [new_Pickup now i req],
        users := pre @ u\<lparr>xp := xp u + 10\<rparr> # post\<rparr>)"
  using assms
  by (simp add: post_pickups_def post_pickups_body_def try_catch_def save_pickup_def
      new_Pickup_def Let_def findOneAndUpdate_first)

lemma put_complete_users:
  assumes "\<forall>v \<in> set pre. email v \<noteq> email u" "users s = pre @ u # post"
    "find (\<lambda>p. pickup_id p = i) (pickups s) = Some p" "pickup_user p = email u"
  shows "users (snd (put_complete s (Some i))) = pre @ u\<lparr>xp := xp u + 20, streak := streak u + 1\<rparr> # post
    \<and> find (\<lambda>p. pickup_id p = i) (pickups (snd (put_complete s (Some i)))) = Some (p\<lparr>status := ''Completed''\<rparr>)
    \<and> code (fst (put_complete s (Some i))) = 200"
proof -
  from assms(3) have "pickup_id p = i" by (auto simp: find_Some_iff)
  then have "pickup_id (p\<lparr>status := ''Completed''\<rparr>) = i" by simp
  from findById_first[OF assms(3), of "\<lambda>p. p\<lparr>status := ''Completed''\<rparr>", OF this]
  obtain ps where fb: "findByIdAndUpdate i (\<lambda>p. p\<lparr>status := ''Completed''\<rparr>) (pickups s) = (Some (p\<lparr>status := ''Completed''\<rparr>), ps)"
    and fnd: "find (\<lambda>p. pickup_id p = i) ps = Some (p\<lparr>status := ''Completed''\<rparr>)"
    by (cases "findByIdAndUpdate i (\<lambda>p. p\<lparr>status := ''Completed''\<rparr>) (pickups s)") auto
  show ?thesis
    using assms(1,2,4) fnd
    by (simp add: put_complete_def put_complete_body_def try_catch_def fb Let_def
        findOneAndUpdate_first respond_def)
qed

lemma post_pledges_users:
  assumes "\<forall>v \<in> set pre. email v \<noteq> email u" "users s = pre @ u # post"
    "pb_user req = email u"
  shows "users (snd (post_pledges now i s req)) = pre @ u\<lparr>xp := xp u + 5\<rparr> # post
     \<and> code (fst (post_pledges now i s req)) = 201"
  using assms
  by (simp add: post_pledges_def post_pledges_body_def try_catch_def save_pledge_def
      Let_def findOneAndUpdate_first respond_def)

subsection \<open>XP awards\<close>

text \<open>
  C2: for every user \<open>u\<close> of a store whose emails are non-empty and distinct (the store
  that registration maintains, see \<open>wf_db_register\<close> and \<open>wf_db_handlers\<close>): scheduling a pickup owned by \<open>u\<close> adds exactly 10 to
  the XP of \<open>u\<close> and changes nothing else in the user collection; completing a pickup owned
  by \<open>u\<close> adds 20 to the XP and 1 to the streak, and a second completion call on the same
  pickup awards both again; a pledge by \<open>u\<close> adds 5 to the XP.
\<close>

theorem xp_awards:
  assumes "wf_db s" and "users s = pre @ u # post"
  shows "(b_user req = email u \<longrightarrow>
            users (snd (post_pickups now i s req)) = pre @ u\<lparr>xp := xp u + 10\<rparr> # post
          \<and> code (fst (post_pickups now i s req)) = 201)
       \<and> (find (\<lambda>p. pickup_id p = j) (pickups s) = Some p \<and> pickup_user p = email u \<longrightarrow>
            users (snd (put_complete s (Some j)))
              = pre @ u\<lparr>xp := xp u + 20, streak := streak u + 1\<rparr> # post
          \<and> users (snd (put_complete (snd (put_complete s (Some j))) (Some j)))
              = pre @ u\<lparr>xp := xp u + 40, streak := streak u + 2\<rparr> # post)
       \<and> (pb_user preq = email u \<longrightarrow>
            users (snd (post_pledges now i s preq)) = pre @ u\<lparr>xp := xp u + 5\<rparr> # post
          \<and> code (fst (post_pledges now i s preq)) = 201)"
proof (intro conjI impI)
  note first = wf_db_first[OF assms]
  {
    assume r: "b_user req = email u"
    from post_pickups_users[OF first assms(2) r, of now i]
    show "users (snd (post_pickups now i s req)) = pre @ u\<lparr>xp := xp u + 10\<rparr> # post"
      and "code (fst (post_pickups now i s req)) = 201"
      by (simp_all add: respond_def)
  }
  {
    assume "pb_user preq = email u"
    from post_pledges_users[OF first(1) assms(2) this, of now i]
    show "users (snd (post_pledges now i s preq)) = pre @ u\<lparr>xp := xp u + 5\<rparr> # post"
      and "code (fst (post_pledges now i s preq)) = 201"
      by simp_all
  }
  {
    assume c: "find (\<lambda>p. pickup_id p = j) (pickups s) = Some p \<and> pickup_user p = email u"
    let ?s1 = "snd (put_complete s (Some j))"
    let ?u1 = "u\<lparr>xp := xp u + 20, streak := streak u + 1\<rparr>"
    let ?p1 = "p\<lparr>status := ''Completed''\<rparr>"
    from put_complete_users[OF first(1) assms(2), of j p] c
    have one: "users ?s1 = pre @ ?u1 # post"
      and fnd: "find (\<lambda>p. pickup_id p = j) (pickups ?s1) = Some ?p1"
      by simp_all
    show "users ?s1 = pre @ ?u1 # post" by (rule one)
    have first1: "\<forall>v \<in> set pre. email v \<noteq> email ?u1" using first(1) by simp
    have owner1: "pickup_user ?p1 = email ?u1" using c by simp
    from put_complete_users[OF first1 one fnd owner1]
    show "users (snd (put_complete ?s1 (Some j)))
              = pre @ u\<lparr>xp := xp u + 40, streak := streak u + 2\<rparr> # post"
      by simp
  }
qed

theorem xp_awards_witness:
  "wf_db demo_db
   \<and> users (snd (post_pickups 4000 8 demo_db demo_pickup_body)) = [demo_alice, demo_bob\<lparr>xp := 160\<rparr>]
   \<and> users (snd (put_complete demo_db (Some 7))) = [demo_alice, demo_bob\<lparr>xp := 170, streak := 4\<rparr>]
   \<and> users (snd (put_complete (snd (put_complete demo_db (Some 7))) (Some 7)))
        = [demo_alice, demo_bob\<lparr>xp := 190, streak := 5\<rparr>]
   \<and> users (snd (post_pledges 4000 8 demo_db demo_pledge_body)) = [demo_alice, demo_bob\<lparr>xp := 155\<rparr>]"
proof -
  have wf: "wf_db demo_db"
    by (simp add: wf_db_def demo_db_def demo_alice_def demo_bob_def)
  have us: "users demo_db = [demo_alice] @ demo_bob # []"
    by (simp add: demo_db_def)
  from xp_awards[OF wf us, of demo_pickup_body 4000 8 7 demo_pickup demo_pledge_body] wf
  show ?thesis
    by (simp add: demo_db_def demo_bob_def demo_pickup_def demo_pickup_body_def
        demo_pledge_body_def)
qed

subsection \<open>Badge reconciliation\<close>

lemma get_stats_found:
  assumes "\<forall>v \<in> set pre. email v \<noteq> email u" "users s = pre @ u # post"
  shows "snd (get_stats s (email u)) = reconcileBadges (email u) u (deriveBadges (xp u)) s"
  using findOne_first[OF assms(1), of post] assms(2)
  by (simp add: get_stats_def get_stats_body_def try_catch_def Let_def)

text \<open>
  C4: during a stats request for a stored user, the derived badges replace the stored ones
  (and nothing else changes) exactly when more badges were derived than are stored;
  otherwise the store is left as it is. A user with no stored badge and 150 XP gets
  [Plastic Buster] stored; a user whose stored badges are as many as the derived ones
  keeps them, whatever they are.
\<close>

theorem badge_reconciliation:
  assumes "\<forall>v \<in> set pre. email v \<noteq> email u" and "users s = pre @ u # post"
  shows "snd (get_stats s (email u)) =
           (if length (deriveBadges (xp u)) > length (badges u)
            then s\<lparr>users := pre @ u\<lparr>badges := deriveBadges (xp u)\<rparr> # post\<rparr>
            else s)
       \<and> (badges u = [] \<and> xp u = 150 \<longrightarrow>
            users (snd (get_stats s (email u))) = pre @ u\<lparr>badges := [''Plastic Buster'']\<rparr> # post)
       \<and> (length (badges u) = length (deriveBadges (xp u)) \<longrightarrow> snd (get_stats s (email u)) = s)"
proof -
  have state: "snd (get_stats s (email u)) =
           (if length (deriveBadges (xp u)) > length (badges u)
            then s\<lparr>users := pre @ u\<lparr>badges := deriveBadges (xp u)\<rparr> # post\<rparr>
            else s)"
    unfolding get_stats_found[OF assms] reconcileBadges_def
    by (simp add: assms(2) findOneAndUpdate_first[OF assms(1)])
  have fresh: "badges u = [] \<and> xp u = 150 \<longrightarrow>
            users (snd (get_stats s (email u))) = pre @ u\<lparr>badges := [''Plastic Buster'']\<rparr> # post"
    unfolding state by (simp add: deriveBadges_def)
  have tie: "length (badges u) = length (deriveBadges (xp u)) \<longrightarrow> snd (get_stats s (email u)) = s"
    unfolding state by simp
  from state fresh tie show ?thesis by (intro conjI)
qed

theorem badge_reconciliation_witness:
  "users (snd (get_stats demo_db ''bob@eco.org''))
     = [demo_alice, demo_bob\<lparr>badges := [''Plastic Buster'']\<rparr>]
   \<and> deriveBadges (xp demo_carol) = [''Plastic Buster'', ''Paper Saver'']
   \<and> snd (get_stats (demo_db\<lparr>users := [demo_alice, demo_carol]\<rparr>) ''carol@eco.org'')
     = demo_db\<lparr>users := [demo_alice, demo_carol]\<rparr>"
proof -
  have bob: "\<forall>v \<in> set [demo_alice]. email v \<noteq> email demo_bob"
    by (simp add: demo_alice_def demo_bob_def)
  have carol: "\<forall>v \<in> set [demo_alice]. email v \<noteq> email demo_carol"
    by (simp add: demo_alice_def demo_carol_def)
  have us: "users demo_db = [demo_alice] @ demo_bob # []"
    "users (demo_db\<lparr>users := [demo_alice, demo_carol]\<rparr>) = [demo_alice] @ demo_carol # []"
    by (simp_all add: demo_db_def)
  have e: "email demo_bob = ''bob@eco.org''" "email demo_carol = ''carol@eco.org''"
    "xp demo_bob = 150" "badges demo_bob = []" "xp demo_carol = 250"
    "badges demo_carol = [''Early Bird'', ''Founder'']"
    by (simp_all add: demo_bob_def demo_carol_def)
  have d: "deriveBadges 250 = [''Plastic Buster'', ''Paper Saver'']"
    "deriveBadges 150 = [''Plastic Buster'']"
    by (simp_all add: deriveBadges_def)
  from badge_reconciliation[OF bob us(1)] badge_reconciliation[OF carol us(2)]
  show ?thesis
    by (simp add: e d)
qed

subsection \<open>Failures\<close>

lemma try_catch_Inl:
  "fst r = Inl err \<Longrightarrow> fst (try_catch r) =
     respond 500 (JObj [(''message'', JStr ''Server error''), (''error'', JStr (message err))])"
  by (simp add: try_catch_def)

text \<open>
  C5: a stats request for an email without a user reads a field of the absent record; the
  handler has no NotFound branch, so the TypeError reaches the catch block, which answers
  500 with the message ``Server error'' and the error's own message, and writes nothing.
  In every handler an error thrown by the body ends in that same response: the handler
  always returns one.
\<close>

theorem stats_absent_user:
  "(findOne e (users s) = None \<longrightarrow>
      fst (get_stats_body s e) = Inl (TypeError ''Cannot read properties of null (reading 'xp')'')
    \<and> get_stats s e =
        (respond 500 (JObj [(''message'', JStr ''Server error''),
                            (''error'', JStr ''Cannot read properties of null (reading 'xp')'')]),
         s)
    \<and> code (fst (get_stats s e)) \<noteq> 404)
   \<and> try_catch (Inl err, s') =
        (respond 500 (JObj [(''message'', JStr ''Server error''), (''error'', JStr (message err))]),
         s')
   \<and> (fst (post_register_body hash now i s creds) = Inl err \<longrightarrow>
        fst (post_register hash now i s creds) =
          respond 500 (JObj [(''message'', JStr ''Server error''), (''error'', JStr (message err))]))
   \<and> (fst (post_login_body compare s creds) = Inl err \<longrightarrow>
        fst (post_login compare s creds) =
          respond 500 (JObj [(''message'', JStr ''Server error''), (''error'', JStr (message err))]))
   \<and> (fst (post_pickups_body now i s preq) = Inl err \<longrightarrow>
        fst (post_pickups now i s preq) =
          respond 500 (JObj [(''message'', JStr ''Server error''), (''error'', JStr (message err))]))
   \<and> (fst (put_complete_body s param) = Inl err \<longrightarrow>
        fst (put_complete s param) =
          respond 500 (JObj [(''message'', JStr ''Server error''), (''error'', JStr (message err))]))
   \<and> (fst (post_pledges_body now i s plreq) = Inl err \<longrightarrow>
        fst (post_pledges now i s plreq) =
          respond 500 (JObj [(''message'', JStr ''Server error''), (''error'', JStr (message err))]))
   \<and> (fst (get_stats_body s e) = Inl err \<longrightarrow>
        fst (get_stats s e) =
          respond 500 (JObj [(''message'', JStr ''Server error''), (''error'', JStr (message err))]))"
proof -
  have absent: "findOne e (users s) = None \<longrightarrow>
      fst (get_stats_body s e) = Inl (TypeError ''Cannot read properties of null (reading 'xp')'')
    \<and> get_stats s e =
        (respond 500 (JObj [(''message'', JStr ''Server error''),
                            (''error'', JStr ''Cannot read properties of null (reading 'xp')'')]),
         s)
    \<and> code (fst (get_stats s e)) \<noteq> 404"
    by (simp add: get_stats_def get_stats_body_def try_catch_def Let_def respond_def)
  have tc: "try_catch (Inl err, s') =
        (respond 500 (JObj [(''message'', JStr ''Server error''), (''error'', JStr (message err))]),
         s')"
    by (simp add: try_catch_def)
  have h1: "fst (post_register_body hash now i s creds) = Inl err \<longrightarrow>
        fst (post_register hash now i s creds) =
          respond 500 (JObj [(''message'', JStr ''Server error''), (''error'', JStr (message err))])"
    unfolding post_register_def by (simp add: try_catch_Inl)
  have h2: "fst (post_login_body compare s creds) = Inl err \<longrightarrow>
        fst (post_login compare s creds) =
          respond 500 (JObj [(''message'', JStr ''Server error''), (''error'', JStr (message err))])"
    unfolding post_login_def by (simp add: try_catch_Inl)
  have h3: "fst (post_pickups_body now i s preq) = Inl err \<longrightarrow>
        fst (post_pickups now i s preq) =
          respond 500 (JObj [(''message'', JStr ''Server error''), (''error'', JStr (message err))])"
    unfolding post_pickups_def by (simp add: try_catch_Inl)
  have h4: "fst (put_complete_body s param) = Inl err \<longrightarrow>
        fst (put_complete s param) =
          respond 500 (JObj [(''message'', JStr ''Server error''), (''error'', JStr (message err))])"
    unfolding put_complete_def by (simp add: try_catch_Inl)
  have h5: "fst (post_pledges_body now i s plreq) = Inl err \<longrightarrow>
        fst (post_pledges now i s plreq) =
          respond 500 (JObj [(''message'', JStr ''Server error''), (''error'', JStr (message err))])"
    unfolding post_pledges_def by (simp add: try_catch_Inl)
  have h6: "fst (get_stats_body s e) = Inl err \<longrightarrow>
        fst (get_stats s e) =
          respond 500 (JObj [(''message'', JStr ''Server error''), (''error'', JStr (message err))])"
    unfolding get_stats_def by (simp add: try_catch_Inl)
  from absent tc h1 h2 h3 h4 h5 h6 show ?thesis by (intro conjI)
qed

theorem stats_absent_user_witness:
  "findOne ''dave@eco.org'' (users demo_db) = None
   \<and> get_stats demo_db ''dave@eco.org'' =
        (respond 500 (JObj [(''message'', JStr ''Server error''),
                            (''error'', JStr ''Cannot read properties of null (reading 'xp')'')]),
         demo_db)
   \<and> fst (put_complete demo_db None) =
        respond 500 (JObj [(''message'', JStr ''Server error''),
                           (''error'', JStr ''Cast to ObjectId failed'')])"
proof -
  have a: "findOne ''dave@eco.org'' (users demo_db) = None"
    by (simp add: findOne_def demo_db_def demo_alice_def demo_bob_def)
  have b: "fst (put_complete_body demo_db None) = Inl (CastError ''Cast to ObjectId failed'')"
    by (simp add: put_complete_body_def)
  from stats_absent_user[of "''dave@eco.org''" demo_db "CastError ''Cast to ObjectId failed''"
      _ _ _ _ _ _ _ None] a b
  show ?thesis by simp
qed

subsection \<open>Community goal\<close>

text \<open>
  C6: the community goal is 0.5 times 2.5 times the number of materials of all pickups of
  the store, rounded to the nearest integer; the status of a pickup plays no part (changing
  statuses at will leaves the response as it is); the response holds the one field
  totalCarbon.
\<close>

theorem community_goal:
  "get_goal s =
     (respond 200 (JObj [(''totalCarbon'',
        JNum (of_int (round (0.5 * 2.5 * (of_nat (\<Sum>p\<leftarrow>pickups s. length (materials p)) :: rat)))))]),
      s)
   \<and> fst (get_goal (s\<lparr>pickups := map (\<lambda>p. p\<lparr>status := st p\<rparr>) (pickups s)\<rparr>)) = fst (get_goal s)
   \<and> json_keys (body (fst (get_goal s))) = [''totalCarbon'']"
proof -
  have goal: "get_goal s =
     (respond 200 (JObj [(''totalCarbon'',
        JNum (of_int (round (0.5 * 2.5 * (of_nat (\<Sum>p\<leftarrow>pickups s. length (materials p)) :: rat)))))]),
      s)" for s
    by (simp add: get_goal_def try_catch_def Let_def fold_materials Math_round_round mult.commute)
  have status: "fst (get_goal (s\<lparr>pickups := map (\<lambda>p. p\<lparr>status := st p\<rparr>) (pickups s)\<rparr>)) = fst (get_goal s)"
    unfolding goal by (simp add: comp_def)
  have keys: "json_keys (body (fst (get_goal s))) = [''totalCarbon'']"
    unfolding goal by (simp add: respond_def)
  from goal[of s] status keys show ?thesis by (intro conjI)
qed

lemma goal_example:
  "fst (get_goal demo_db) = respond 200 (JObj [(''totalCarbon'', JNum 3)])"
  by (simp add: get_goal_def try_catch_def demo_db_def demo_pickup_def Math_round_def)

subsection \<open>Leaderboard\<close>

lemma sort_desc_sorted:
  "sorted_wrt (\<lambda>a b. entry_xp b \<le> entry_xp a) (sort_key (\<lambda>e. - entry_xp e) es)"
proof -
  have "sorted (map (\<lambda>e. - entry_xp e) (sort_key (\<lambda>e. - entry_xp e) es))"
    by (rule sorted_sort_key)
  then show ?thesis by (simp add: sorted_map)
qed

lemma aggregate_rest:
  "mset (map project us) - mset (aggregate us)
     = mset (drop 10 (sort_key (\<lambda>e. - entry_xp e) (map project us)))"
proof -
  let ?L = "sort_key (\<lambda>e. - entry_xp e) (map project us)"
  have "mset (take 10 ?L) + mset (drop 10 ?L) = mset ?L"
    by (simp flip: mset_append)
  then have "mset ?L - mset (take 10 ?L) = mset (drop 10 ?L)"
    by (metis add_diff_cancel_left')
  then show ?thesis by (simp add: aggregate_def)
qed

lemma insort_key_map:
  "insort_key f (g x) (map g ys) = map g (insort_key (\<lambda>y. f (g y)) x ys)"
  by (induction ys) simp_all

lemma sort_key_map:
  "sort_key f (map g xs) = map g (sort_key (\<lambda>y. f (g y)) xs)"
  by (induction xs) (simp_all add: insort_key_map)

lemma aggregate_users:
  "aggregate us = map project (take 10 (sort_key (\<lambda>u. - xp u) us))"
proof -
  have "sort_key (\<lambda>e. - entry_xp e) (map project us)
      = map project (sort_key (\<lambda>u. - entry_xp (project u)) us)"
    by (rule sort_key_map)
  also have "(\<lambda>u. - entry_xp (project u)) = (\<lambda>u. - xp u)"
    by (simp add: project_def)
  finally show ?thesis by (simp add: aggregate_def take_map)
qed

lemma top_users:
  fixes us :: "user_doc list"
  defines "leaders \<equiv> take 10 (sort_key (\<lambda>u. - xp u) us)"
  shows "length leaders = min 10 (length us)"
    and "sorted_wrt (\<lambda>a b. xp b \<le> xp a) leaders"
    and "mset leaders \<subseteq># mset us"
    and "\<forall>x \<in># mset us - mset leaders. \<forall>u \<in> set leaders. xp x \<le> xp u"
proof -
  let ?L = "sort_key (\<lambda>u. - xp u) us"
  show "length leaders = min 10 (length us)"
    by (simp add: leaders_def min.commute)
  have "sorted (map (\<lambda>u. - xp u) ?L)" by (rule sorted_sort_key)
  then have srt: "sorted_wrt (\<lambda>a b. xp b \<le> xp a) ?L" by (simp add: sorted_map)
  then show "sorted_wrt (\<lambda>a b. xp b \<le> xp a) leaders"
    unfolding leaders_def by (rule sorted_wrt_take)
  have split: "mset leaders + mset (drop 10 ?L) = mset us"
    unfolding leaders_def by (simp flip: mset_append)
  then show "mset leaders \<subseteq># mset us" by (metis mset_subset_eq_add_left)
  from split have rest: "mset us - mset leaders = mset (drop 10 ?L)"
    by (metis add_diff_cancel_left')
  have "sorted_wrt (\<lambda>a b. xp b \<le> xp a) (take 10 ?L @ drop 10 ?L)"
    using srt by simp
  then have "\<forall>u \<in> set (take 10 ?L). \<forall>x \<in> set (drop 10 ?L). xp x \<le> xp u"
    unfolding sorted_wrt_append by blast
  then show "\<forall>x \<in># mset us - mset leaders. \<forall>u \<in> set leaders. xp x \<le> xp u"
    unfolding rest by (auto simp: leaders_def)
qed

text \<open>
  C7: for every user collection the leaderboard response is the list of the objects
  {_id, email, xp, badges}, each field copied from a user of the store, for the 10 first
  users (all of them when there are fewer) in descending order of XP: the listed users
  are sorted by XP downwards, are users of the store, and no user left out has more XP
  than one that is listed. (Users with equal XP are listed in store order here; the
  properties do not depend on that.)
\<close>

theorem leaderboard_top10:
  "(let leaders = take 10 (sort_key (\<lambda>u. - xp u) (users s)) in
      get_leaderboard s =
        (respond 200 (JArr (map (\<lambda>u. JObj [(''_id'', JOid (user_id u)),
                                             (''email'', JStr (email u)),
                                             (''xp'', JNum (of_int (xp u))),
                                             (''badges'', JArr (map JStr (badges u)))]) leaders)),
         s)
    \<and> aggregate (users s) =
        map (\<lambda>u. \<lparr>entry_id = user_id u, entry_email = email u, entry_xp = xp u,
                   entry_badges = badges u\<rparr>) leaders
    \<and> length leaders = min 10 (length (users s))
    \<and> length leaders \<le> 10
    \<and> sorted_wrt (\<lambda>a b. xp b \<le> xp a) leaders
    \<and> mset leaders \<subseteq># mset (users s)
    \<and> (\<forall>x \<in># mset (users s) - mset leaders. \<forall>u \<in> set leaders. xp x \<le> xp u))
   \<and> get_leaderboard s = (respond 200 (JArr (map entry_json (aggregate (users s)))), s)
   \<and> length (aggregate (users s)) = min 10 (length (users s))
   \<and> length (aggregate (users s)) \<le> 10
   \<and> sorted_wrt (\<lambda>a b. entry_xp b \<le> entry_xp a) (aggregate (users s))
   \<and> mset (aggregate (users s)) \<subseteq># mset (map project (users s))
   \<and> (\<forall>x \<in># mset (map project (users s)) - mset (aggregate (users s)).
        \<forall>e \<in> set (aggregate (users s)). entry_xp x \<le> entry_xp e)"
proof -
  let ?top = "take 10 (sort_key (\<lambda>u. - xp u) (users s))"
  let ?L = "sort_key (\<lambda>e. - entry_xp e) (map project (users s))"
  have agg: "aggregate (users s) =
        map (\<lambda>u. \<lparr>entry_id = user_id u, entry_email = email u, entry_xp = xp u,
                   entry_badges = badges u\<rparr>) ?top"
    unfolding aggregate_users by (simp add: project_def)
  have resp: "get_leaderboard s = (respond 200 (JArr (map entry_json (aggregate (users s)))), s)"
    by (simp add: get_leaderboard_def try_catch_def)
  have json: "get_leaderboard s =
        (respond 200 (JArr (map (\<lambda>u. JObj [(''_id'', JOid (user_id u)),
                                             (''email'', JStr (email u)),
                                             (''xp'', JNum (of_int (xp u))),
                                             (''badges'', JArr (map JStr (badges u)))]) ?top)),
         s)"
    unfolding resp agg by (simp add: entry_json_def strings_json_def comp_def)
  have tlen: "length ?top = min 10 (length (users s))" by (rule top_users)
  then have tlen10: "length ?top \<le> 10" by simp
  have tsrt: "sorted_wrt (\<lambda>a b. xp b \<le> xp a) ?top" by (rule top_users)
  have tsub: "mset ?top \<subseteq># mset (users s)" by (rule top_users)
  have ttop: "\<forall>x \<in># mset (users s) - mset ?top. \<forall>u \<in> set ?top. xp x \<le> xp u"
    by (rule top_users)
  have len: "length (aggregate (users s)) = min 10 (length (users s))"
    by (simp add: aggregate_def min.commute)
  then have len10: "length (aggregate (users s)) \<le> 10" by simp
  have srt: "sorted_wrt (\<lambda>a b. entry_xp b \<le> entry_xp a) ?L"
    by (rule sort_desc_sorted)
  then have srt10: "sorted_wrt (\<lambda>a b. entry_xp b \<le> entry_xp a) (aggregate (users s))"
    unfolding aggregate_def by (rule sorted_wrt_take)
  have "mset (take 10 ?L) \<subseteq># mset (take 10 ?L) + mset (drop 10 ?L)"
    by simp
  then have sub: "mset (aggregate (users s)) \<subseteq># mset (map project (users s))"
    by (simp add: aggregate_def flip: mset_append)
  have "sorted_wrt (\<lambda>a b. entry_xp b \<le> entry_xp a) (take 10 ?L @ drop 10 ?L)"
    using srt by simp
  then have "\<forall>e \<in> set (take 10 ?L). \<forall>x \<in> set (drop 10 ?L). entry_xp x \<le> entry_xp e"
    unfolding sorted_wrt_append by blast
  then have leaders: "\<forall>x \<in># mset (map project (users s)) - mset (aggregate (users s)).
        \<forall>e \<in> set (aggregate (users s)). entry_xp x \<le> entry_xp e"
    unfolding aggregate_rest by (auto simp: aggregate_def)
  from json agg tlen tlen10 tsrt tsub ttop resp len len10 srt10 sub leaders show ?thesis
    unfolding Let_def by (intro conjI)
qed

lemma demo_crowd_board:
  "map entry_xp (aggregate demo_crowd) = [120, 110, 100, 90, 80, 70, 60, 50, 40, 30]"
  by (simp add: aggregate_def demo_crowd_def project_def)

lemma demo_crowd_top:
  "map user_id (take 10 (sort_key (\<lambda>u. - xp u) demo_crowd)) = [12, 11, 10, 9, 8, 7, 6, 5, 4, 3]"
  by (simp add: demo_crowd_def)

lemma demo_db_top:
  "take 10 (sort_key (\<lambda>u. - xp u) (users demo_db)) = [demo_bob, demo_alice]"
  by (simp add: demo_db_def demo_alice_def demo_bob_def)

theorem leaderboard_top10_witness:
  "get_leaderboard demo_db =
     (respond 200
        (JArr [JObj [(''_id'', JOid 2), (''email'', JStr ''bob@eco.org''), (''xp'', JNum 150),
                     (''badges'', JArr [])],
               JObj [(''_id'', JOid 1), (''email'', JStr ''alice@eco.org''), (''xp'', JNum 0),
                     (''badges'', JArr [])]]),
      demo_db)
   \<and> aggregate (users demo_db) =
       [\<lparr>entry_id = 2, entry_email = ''bob@eco.org'', entry_xp = 150, entry_badges = []\<rparr>,
        \<lparr>entry_id = 1, entry_email = ''alice@eco.org'', entry_xp = 0, entry_badges = []\<rparr>]
   \<and> map entry_id (aggregate (users \<lparr>users = demo_crowd, pickups = [], pledges = []\<rparr>))
       = [12, 11, 10, 9, 8, 7, 6, 5, 4, 3]
   \<and> map entry_xp (aggregate (users \<lparr>users = demo_crowd, pickups = [], pledges = []\<rparr>))
       = [120, 110, 100, 90, 80, 70, 60, 50, 40, 30]
   \<and> length (aggregate (users \<lparr>users = demo_crowd, pickups = [], pledges = []\<rparr>)) = 10
   \<and> length (users \<lparr>users = demo_crowd, pickups = [], pledges = []\<rparr>) = 12
   \<and> size (mset (map project (users \<lparr>users = demo_crowd, pickups = [], pledges = []\<rparr>))
        - mset (aggregate (users \<lparr>users = demo_crowd, pickups = [], pledges = []\<rparr>))) = 2"
proof -
  have n: "length demo_crowd = 12" by (simp add: demo_crowd_def)
  have small: "get_leaderboard demo_db =
     (respond 200
        (JArr [JObj [(''_id'', JOid 2), (''email'', JStr ''bob@eco.org''), (''xp'', JNum 150),
                     (''badges'', JArr [])],
               JObj [(''_id'', JOid 1), (''email'', JStr ''alice@eco.org''), (''xp'', JNum 0),
                     (''badges'', JArr [])]]),
      demo_db)
   \<and> aggregate (users demo_db) =
       [\<lparr>entry_id = 2, entry_email = ''bob@eco.org'', entry_xp = 150, entry_badges = []\<rparr>,
        \<lparr>entry_id = 1, entry_email = ''alice@eco.org'', entry_xp = 0, entry_badges = []\<rparr>]"
    using leaderboard_top10[of demo_db] unfolding Let_def demo_db_top
    by (simp add: demo_alice_def demo_bob_def)
  let ?C = "\<lparr>users = demo_crowd, pickups = [], pledges = []\<rparr>"
  note crowd = leaderboard_top10[of ?C, unfolded Let_def]
  have agg: "aggregate (users ?C) =
        map (\<lambda>u. \<lparr>entry_id = user_id u, entry_email = email u, entry_xp = xp u,
                   entry_badges = badges u\<rparr>) (take 10 (sort_key (\<lambda>u. - xp u) (users ?C)))"
    using crowd by (elim conjE) assumption
  have len: "length (aggregate (users ?C)) = min 10 (length (users ?C))"
    using crowd by (elim conjE) assumption
  have sub: "mset (aggregate (users ?C)) \<subseteq># mset (map project (users ?C))"
    using crowd by (elim conjE) assumption
  have ids: "map entry_id (aggregate (users ?C)) = [12, 11, 10, 9, 8, 7, 6, 5, 4, 3]"
    unfolding agg using demo_crowd_top by (simp add: comp_def)
  have xps: "map entry_xp (aggregate (users ?C)) = [120, 110, 100, 90, 80, 70, 60, 50, 40, 30]"
    by (simp add: demo_crowd_board)
  have len10: "length (aggregate (users ?C)) = 10"
    unfolding len by (simp add: n)
  have n12: "length (users ?C) = 12" by (simp add: n)
  have rest: "size (mset (map project (users ?C)) - mset (aggregate (users ?C))) = 2"
    unfolding size_Diff_submset[OF sub] using len10 n12 by simp
  from small ids xps len10 n12 rest show ?thesis by (intro conjI) (elim conjE, assumption)+
qed

subsection \<open>Registration and login\<close>

lemma post_register_created:
  assumes "code (fst (post_register hash now i s req)) = 201"
  shows "\<exists>pw. body_password req = JSString pw
    \<and> findOne (body_email req) (users s) = None
    \<and> snd (post_register hash now i s req) =
        s\<lparr>users := users s @ [\<lparr>user_id = i, email = body_email req,
            password = hash pw, xp = 0, streak = 0, badges = [], createdAt = now\<rparr>]\<rparr>"
  using assms
  by (auto simp: post_register_def post_register_body_def try_catch_def respond_def Let_def
      save_user_def bcrypt_hash_def split: option.splits if_splits js_value.splits)

lemma findOne_append_new:
  "findOne e us = None \<Longrightarrow> email u = e \<Longrightarrow> findOne e (us @ [u]) = Some u"
  by (induction us) (simp_all add: findOne_def split: if_splits)

text \<open>
  C8: registering an email that a stored user already has answers 400 ``User already
  exists'' and leaves the whole store, that user's record included, as it was. In
  particular, after a registration that succeeded, a second registration of the same email
  (with any password) is refused and changes nothing.
\<close>

theorem register_twice:
  "(findOne (body_email req) (users s) = Some u \<longrightarrow>
      post_register hash now i s req =
        (respond 400 (JObj [(''message'', JStr ''User already exists'')]), s))
   \<and> (code (fst (post_register hash now i s req)) = 201 \<and> body_email req' = body_email req \<longrightarrow>
      post_register hash' now' i' (snd (post_register hash now i s req)) req' =
        (respond 400 (JObj [(''message'', JStr ''User already exists'')]),
         snd (post_register hash now i s req))
      \<and> (\<exists>pw. body_password req = JSString pw
           \<and> findOne (body_email req) (users (snd (post_register hash now i s req))) =
               Some \<lparr>user_id = i, email = body_email req, password = hash pw,
                     xp = 0, streak = 0, badges = [], createdAt = now\<rparr>))"
proof -
  have dup: "findOne (body_email r) (users t) = Some v \<Longrightarrow>
      post_register h n k t r =
        (respond 400 (JObj [(''message'', JStr ''User already exists'')]), t)" for r t v h n k
    by (simp add: post_register_def post_register_body_def try_catch_def)
  have first: "findOne (body_email req) (users s) = Some u \<longrightarrow>
      post_register hash now i s req =
        (respond 400 (JObj [(''message'', JStr ''User already exists'')]), s)"
    using dup by blast
  have second: "code (fst (post_register hash now i s req)) = 201 \<and> body_email req' = body_email req \<longrightarrow>
      post_register hash' now' i' (snd (post_register hash now i s req)) req' =
        (respond 400 (JObj [(''message'', JStr ''User already exists'')]),
         snd (post_register hash now i s req))
      \<and> (\<exists>pw. body_password req = JSString pw
           \<and> findOne (body_email req) (users (snd (post_register hash now i s req))) =
               Some \<lparr>user_id = i, email = body_email req, password = hash pw,
                     xp = 0, streak = 0, badges = [], createdAt = now\<rparr>)"
  proof
    assume a: "code (fst (post_register hash now i s req)) = 201 \<and> body_email req' = body_email req"
    let ?s1 = "snd (post_register hash now i s req)"
    from post_register_created[of hash now i s req] a
    obtain pw where pw: "body_password req = JSString pw"
      and none: "findOne (body_email req) (users s) = None"
      and s1: "?s1 = s\<lparr>users := users s @ [\<lparr>user_id = i, email = body_email req,
            password = hash pw, xp = 0, streak = 0, badges = [], createdAt = now\<rparr>]\<rparr>"
      by blast
    let ?new = "\<lparr>user_id = i, email = body_email req, password = hash pw,
                xp = 0, streak = 0, badges = [], createdAt = now\<rparr>"
    have found: "findOne (body_email req) (users ?s1) = Some ?new"
      unfolding s1 using findOne_append_new[OF none, of ?new] by simp
    then have "findOne (body_email req') (users ?s1) = Some ?new" using a by simp
    from dup[OF this] have "post_register hash' now' i' ?s1 req' =
        (respond 400 (JObj [(''message'', JStr ''User already exists'')]), ?s1)" .
    with pw found
    show "post_register hash' now' i' ?s1 req' =
        (respond 400 (JObj [(''message'', JStr ''User already exists'')]), ?s1)
      \<and> (\<exists>pw. body_password req = JSString pw
           \<and> findOne (body_email req) (users ?s1) =
               Some \<lparr>user_id = i, email = body_email req, password = hash pw,
                     xp = 0, streak = 0, badges = [], createdAt = now\<rparr>)"
      by blast
  qed
  from first second show ?thesis by (intro conjI)
qed

theorem register_twice_witness:
  "post_register (\<lambda>p. ''$2a$10$'' @ p) 5000 4 demo_db
      \<lparr>body_email = ''bob@eco.org'', body_password = JSString ''hunter2''\<rparr>
     = (respond 400 (JObj [(''message'', JStr ''User already exists'')]), demo_db)
   \<and> code (fst (post_register (\<lambda>p. ''$2a$10$'' @ p) 5000 4 demo_db
        \<lparr>body_email = ''erin@eco.org'', body_password = JSString ''pw1''\<rparr>)) = 201
   \<and> fst (post_register (\<lambda>p. ''$2a$10$'' @ rev p) 6000 5
        (snd (post_register (\<lambda>p. ''$2a$10$'' @ p) 5000 4 demo_db
           \<lparr>body_email = ''erin@eco.org'', body_password = JSString ''pw1''\<rparr>))
        \<lparr>body_email = ''erin@eco.org'', body_password = JSString ''pw2''\<rparr>)
     = respond 400 (JObj [(''message'', JStr ''User already exists'')])
   \<and> users (snd (post_register (\<lambda>p. ''$2a$10$'' @ rev p) 6000 5
        (snd (post_register (\<lambda>p. ''$2a$10$'' @ p) 5000 4 demo_db
           \<lparr>body_email = ''erin@eco.org'', body_password = JSString ''pw1''\<rparr>))
        \<lparr>body_email = ''erin@eco.org'', body_password = JSString ''pw2''\<rparr>))
     = [demo_alice, demo_bob,
        \<lparr>user_id = 4, email = ''erin@eco.org'', password = ''$2a$10$pw1'', xp = 0, streak = 0,
         badges = [], createdAt = 5000\<rparr>]"
proof -
  have bob: "findOne ''bob@eco.org'' (users demo_db) = Some demo_bob"
    by (simp add: findOne_def demo_db_def demo_alice_def demo_bob_def)
  have erin: "post_register (\<lambda>p. ''$2a$10$'' @ p) 5000 4 demo_db
        \<lparr>body_email = ''erin@eco.org'', body_password = JSString ''pw1''\<rparr>
      = (respond 201 (JObj [(''message'', JStr ''User registered successfully'')]),
         demo_db\<lparr>users := [demo_alice, demo_bob,
           \<lparr>user_id = 4, email = ''erin@eco.org'', password = ''$2a$10$pw1'', xp = 0, streak = 0,
            badges = [], createdAt = 5000\<rparr>]\<rparr>)"
    by (simp add: post_register_def post_register_body_def try_catch_def save_user_def
        bcrypt_hash_def findOne_def demo_db_def demo_alice_def demo_bob_def)
  from register_twice[of "\<lparr>body_email = ''bob@eco.org'', body_password = JSString ''hunter2''\<rparr>"
      demo_db demo_bob "\<lambda>p. ''$2a$10$'' @ p" 5000 4]
    register_twice[of "\<lparr>body_email = ''erin@eco.org'', body_password = JSString ''pw1''\<rparr>"
      demo_db _ "\<lambda>p. ''$2a$10$'' @ p" 5000 4
      "\<lparr>body_email = ''erin@eco.org'', body_password = JSString ''pw2''\<rparr>"
      "\<lambda>p. ''$2a$10$'' @ rev p" 6000 5]
    bob
  show ?thesis
    unfolding erin by (simp add: respond_def)
qed

lemma login_wrong_password:
  "(findOne (body_email req) (users s) = Some u \<and> body_password req = JSString pw
      \<and> \<not> compare pw (password u) \<longrightarrow>
      post_login compare s req =
        (respond 400 (JObj [(''message'', JStr ''Invalid credentials'')]), s))
   \<and> (findOne (body_email req') (users s') = None \<longrightarrow>
      post_login compare s' req' =
        (respond 400 (JObj [(''message'', JStr ''Invalid credentials'')]), s'))"
  by (simp add: post_login_def post_login_body_def try_catch_def bcrypt_compare_def)

lemma login_not_a_string:
  assumes "findOne (body_email req) (users s) = Some u"
    and "\<forall>pw. body_password req \<noteq> JSString pw"
  shows "post_login compare s req =
     (respond 500 (JObj [(''message'', JStr ''Server error''),
        (''error'', JStr (''Illegal arguments: '' @ typeof (body_password req) @ '', string''))]),
      s)"
  using assms
  by (cases "body_password req")
    (simp_all add: post_login_def post_login_body_def try_catch_def bcrypt_compare_def)

text \<open>
  C9: a login with a wrong password string answers 400 ``Invalid credentials'', as a login
  for an email without a user does (\<open>login_wrong_password\<close>). But the response does reveal
  whether the email exists: \<^verbatim>\<open>bcrypt.compare\<close> is reached only once the user was found, and
  it rejects a password that is not a string (\<open>login_not_a_string\<close>). The same request
  without a password gets 500 with the cause for the email of a stored user, and 400 for
  an email that no user has.
\<close>

theorem login_reveals_email:
  "findOne ''bob@eco.org'' (users demo_db) = Some demo_bob
   \<and> findOne ''dave@eco.org'' (users demo_db) = None
   \<and> post_login demo_compare demo_db \<lparr>body_email = ''bob@eco.org'', body_password = JSUndefined\<rparr>
       = (respond 500 (JObj [(''message'', JStr ''Server error''),
                             (''error'', JStr ''Illegal arguments: undefined, string'')]),
          demo_db)
   \<and> post_login demo_compare demo_db \<lparr>body_email = ''dave@eco.org'', body_password = JSUndefined\<rparr>
       = (respond 400 (JObj [(''message'', JStr ''Invalid credentials'')]), demo_db)
   \<and> fst (post_login demo_compare demo_db
             \<lparr>body_email = ''bob@eco.org'', body_password = JSUndefined\<rparr>)
       \<noteq> fst (post_login demo_compare demo_db
             \<lparr>body_email = ''dave@eco.org'', body_password = JSUndefined\<rparr>)"
  by (simp add: post_login_def post_login_body_def try_catch_def bcrypt_compare_def
      respond_def findOne_def demo_db_def demo_alice_def demo_bob_def)

subsection \<open>The password hash stays in the store\<close>

lemma json_keys_strings [simp]: "json_keys (strings_json xs) = []"
  by (induction xs) (simp_all add: strings_json_def)

lemma json_keys_entry:
  "json_keys (entry_json e) = [''_id'', ''email'', ''xp'', ''badges'']"
  by (simp add: entry_json_def)

lemma project_password:
  "project \<circ> (\<lambda>u. u\<lparr>password := h u\<rparr>) = project"
  by (rule ext) (simp add: project_def)

lemma findOne_rehash:
  "findOne e (map (\<lambda>u. u\<lparr>password := h u\<rparr>) us)
     = map_option (\<lambda>u. u\<lparr>password := h u\<rparr>) (findOne e us)"
  by (induction us) (simp_all add: findOne_def)

lemma json_keys_pickup:
  "json_keys (pickup_json p) = [''user'', ''date'', ''location'', ''pickupType'', ''time'',
     ''phone'', ''materials'', ''notes'', ''status'', ''_id'', ''createdAt'', ''__v'']"
  by (simp add: pickup_json_def)

lemma json_keys_pledge:
  "json_keys (pledge_json p) = [''user'', ''pledge'', ''_id'', ''createdAt'', ''__v'']"
  by (simp add: pledge_json_def)

lemma json_keys_failure:
  "fst r = Inl err \<Longrightarrow> json_keys (body (fst (try_catch r))) = [''message'', ''error'']"
  by (simp add: try_catch_def respond_def)

lemma register_keys:
  "''password'' \<notin> set (json_keys (body (fst (post_register hash now i s req))))"
  by (simp add: post_register_def post_register_body_def try_catch_def respond_def Let_def
      save_user_def bcrypt_hash_def split: option.splits js_value.splits)

lemma login_keys:
  "''password'' \<notin> set (json_keys (body (fst (post_login compare s req))))"
  by (simp add: post_login_def post_login_body_def try_catch_def respond_def Let_def
      bcrypt_compare_def split: option.splits js_value.splits)

lemma pickups_keys:
  "''password'' \<notin> set (json_keys (body (fst (post_pickups now i s preq))))"
  "''password'' \<notin> set (json_keys (body (fst (get_pickups s e))))"
  by (simp_all add: post_pickups_def post_pickups_body_def get_pickups_def try_catch_def
      respond_def Let_def save_pickup_def json_keys_pickup)

lemma complete_keys:
  "''password'' \<notin> set (json_keys (body (fst (put_complete s param))))"
  by (simp add: put_complete_def put_complete_body_def try_catch_def respond_def Let_def
      json_keys_pickup split: option.splits prod.splits)

lemma pledges_keys:
  "''password'' \<notin> set (json_keys (body (fst (post_pledges now i s plreq))))"
  "''password'' \<notin> set (json_keys (body (fst (get_pledges s))))"
  by (simp_all add: post_pledges_def post_pledges_body_def get_pledges_def try_catch_def
      respond_def Let_def json_keys_pledge)

lemma stats_keys:
  "''password'' \<notin> set (json_keys (body (fst (get_stats s e))))"
  by (simp add: get_stats_def get_stats_body_def try_catch_def respond_def Let_def
      split: option.splits)

lemma board_keys:
  "''password'' \<notin> set (json_keys (body (fst (get_leaderboard s))))"
  "''password'' \<notin> set (json_keys (body (fst (get_goal s))))"
  by (simp_all add: get_leaderboard_def get_goal_def try_catch_def respond_def Let_def
      json_keys_entry)

lemma board_rehash:
  "fst (get_leaderboard (rehash h s)) = fst (get_leaderboard s)"
  by (simp add: get_leaderboard_def try_catch_def aggregate_def project_password rehash_def)

lemma stats_rehash:
  "fst (get_stats (rehash h s) e) = fst (get_stats s e)"
  by (simp add: get_stats_def get_stats_body_def try_catch_def Let_def rehash_def
      findOne_rehash split: option.splits)

lemma register_rehash:
  "fst (post_register hash now i (rehash h s) req) = fst (post_register hash now i s req)"
  by (simp add: post_register_def post_register_body_def try_catch_def Let_def rehash_def
      findOne_rehash save_user_def bcrypt_hash_def split: option.splits js_value.splits)

lemma others_rehash:
  "fst (post_pickups now i (rehash h s) preq) = fst (post_pickups now i s preq)"
  "fst (get_pickups (rehash h s) e) = fst (get_pickups s e)"
  "fst (put_complete (rehash h s) param) = fst (put_complete s param)"
  "fst (post_pledges now i (rehash h s) plreq) = fst (post_pledges now i s plreq)"
  "fst (get_pledges (rehash h s)) = fst (get_pledges s)"
  "fst (get_goal (rehash h s)) = fst (get_goal s)"
  by (simp_all add: post_pickups_def post_pickups_body_def get_pickups_def put_complete_def
      put_complete_body_def post_pledges_def post_pledges_body_def get_pledges_def get_goal_def
      try_catch_def Let_def rehash_def save_pickup_def save_pledge_def
      split: option.splits prod.splits)

lemma login_rehash:
  assumes "findOne (body_email req) (users s) = Some u"
    "body_password req = JSString pw" "compare pw (password u)"
    "body_password req' = JSString pw'" "compare' pw' (h u)"
    "body_email req' = body_email req"
  shows "fst (post_login compare' (rehash h s) req') = fst (post_login compare s req)"
  using assms
  by (simp add: post_login_def post_login_body_def try_catch_def rehash_def findOne_rehash
      bcrypt_compare_def)

lemma login_failed_body:
  "code (fst (post_login compare s req)) \<noteq> 200 \<longrightarrow>
     body (fst (post_login compare s req)) = JObj [(''message'', JStr ''Invalid credentials'')]
   \<or> body (fst (post_login compare s req)) =
        JObj [(''message'', JStr ''Server error''),
              (''error'', JStr (''Illegal arguments: '' @ typeof (body_password req) @ '', string''))]"
  by (simp add: post_login_def post_login_body_def try_catch_def respond_def
      bcrypt_compare_def split: option.splits js_value.splits)

text \<open>
  C10: a successful login answers the message and a user object with exactly the fields
  email, xp, streak and badges, taken from the stored user; every leaderboard entry has
  exactly the fields _id, email, xp and badges. No response of any handler has a password
  field. Replacing the stored hashes changes no response other than a login's, a login
  that succeeds before and after gets the same response, and a login that fails gets one
  of two bodies made of fixed text and the type of the request's own password.
\<close>

theorem password_not_exposed:
  "(findOne (body_email req) (users s) = Some u \<and> body_password req = JSString pw
      \<and> compare pw (password u) \<longrightarrow>
      fst (post_login compare s req) =
        respond 200 (JObj [(''message'', JStr ''Login successful''),
                           (''user'', JObj [(''email'', JStr (email u)),
                                            (''xp'', JNum (of_int (xp u))),
                                            (''streak'', JNum (of_int (streak u))),
                                            (''badges'', strings_json (badges u))])])
      \<and> json_keys (body (fst (post_login compare s req))) =
          [''message'', ''user'', ''email'', ''xp'', ''streak'', ''badges'']
      \<and> (body_password req' = JSString pw' \<and> compare' pw' (h u)
           \<and> body_email req' = body_email req \<longrightarrow>
          fst (post_login compare' (rehash h s) req') = fst (post_login compare s req)))
   \<and> body (fst (get_leaderboard s)) = JArr (map entry_json (aggregate (users s)))
   \<and> (\<forall>e \<in> set (aggregate (users s)).
        json_keys (entry_json e) = [''_id'', ''email'', ''xp'', ''badges''])
   \<and> fst (get_leaderboard (rehash h s)) = fst (get_leaderboard s)
   \<and> ''password'' \<notin> set (json_keys (body (fst (post_login compare s req))))
   \<and> ''password'' \<notin> set (json_keys (body (fst (get_leaderboard s))))
   \<and> ''password'' \<notin> set (json_keys (body (fst (post_register hash now i s req))))
   \<and> ''password'' \<notin> set (json_keys (body (fst (post_pickups now i s preq))))
   \<and> ''password'' \<notin> set (json_keys (body (fst (get_pickups s e))))
   \<and> ''password'' \<notin> set (json_keys (body (fst (put_complete s param))))
   \<and> ''password'' \<notin> set (json_keys (body (fst (post_pledges now i s plreq))))
   \<and> ''password'' \<notin> set (json_keys (body (fst (get_pledges s))))
   \<and> ''password'' \<notin> set (json_keys (body (fst (get_stats s e))))
   \<and> ''password'' \<notin> set (json_keys (body (fst (get_goal s))))
   \<and> fst (post_register hash now i (rehash h s) req) = fst (post_register hash now i s req)
   \<and> fst (post_pickups now i (rehash h s) preq) = fst (post_pickups now i s preq)
   \<and> fst (get_pickups (rehash h s) e) = fst (get_pickups s e)
   \<and> fst (put_complete (rehash h s) param) = fst (put_complete s param)
   \<and> fst (post_pledges now i (rehash h s) plreq) = fst (post_pledges now i s plreq)
   \<and> fst (get_pledges (rehash h s)) = fst (get_pledges s)
   \<and> fst (get_stats (rehash h s) e) = fst (get_stats s e)
   \<and> fst (get_goal (rehash h s)) = fst (get_goal s)
   \<and> (code (fst (post_login compare s req)) \<noteq> 200 \<longrightarrow>
        body (fst (post_login compare s req)) = JObj [(''message'', JStr ''Invalid credentials'')]
      \<or> body (fst (post_login compare s req)) =
           JObj [(''message'', JStr ''Server error''),
                 (''error'',
                  JStr (''Illegal arguments: '' @ typeof (body_password req) @ '', string''))])"
proof -
  have ok: "findOne (body_email req) (users s) = Some u \<and> body_password req = JSString pw
      \<and> compare pw (password u) \<longrightarrow>
      fst (post_login compare s req) =
        respond 200 (JObj [(''message'', JStr ''Login successful''),
                           (''user'', JObj [(''email'', JStr (email u)),
                                            (''xp'', JNum (of_int (xp u))),
                                            (''streak'', JNum (of_int (streak u))),
                                            (''badges'', strings_json (badges u))])])
      \<and> json_keys (body (fst (post_login compare s req))) =
          [''message'', ''user'', ''email'', ''xp'', ''streak'', ''badges'']
      \<and> (body_password req' = JSString pw' \<and> compare' pw' (h u)
           \<and> body_email req' = body_email req \<longrightarrow>
          fst (post_login compare' (rehash h s) req') = fst (post_login compare s req))"
  proof (intro impI conjI)
    assume a: "findOne (body_email req) (users s) = Some u \<and> body_password req = JSString pw
      \<and> compare pw (password u)"
    then show "fst (post_login compare s req) =
        respond 200 (JObj [(''message'', JStr ''Login successful''),
                           (''user'', JObj [(''email'', JStr (email u)),
                                            (''xp'', JNum (of_int (xp u))),
                                            (''streak'', JNum (of_int (streak u))),
                                            (''badges'', strings_json (badges u))])])"
      by (simp add: post_login_def post_login_body_def try_catch_def bcrypt_compare_def)
    then show "json_keys (body (fst (post_login compare s req))) =
          [''message'', ''user'', ''email'', ''xp'', ''streak'', ''badges'']"
      by (simp add: respond_def)
    assume "body_password req' = JSString pw' \<and> compare' pw' (h u)
           \<and> body_email req' = body_email req"
    with a show "fst (post_login compare' (rehash h s) req') = fst (post_login compare s req)"
      by (simp add: login_rehash)
  qed
  have board: "body (fst (get_leaderboard s)) = JArr (map entry_json (aggregate (users s)))"
    by (simp add: get_leaderboard_def try_catch_def respond_def)
  have entries: "\<forall>e \<in> set (aggregate (users s)).
        json_keys (entry_json e) = [''_id'', ''email'', ''xp'', ''badges'']"
    by (simp add: json_keys_entry)
  from ok board entries show ?thesis
    by (intro conjI board_rehash login_keys board_keys register_keys pickups_keys
        complete_keys pledges_keys stats_keys register_rehash others_rehash stats_rehash
        login_failed_body)
qed

theorem password_not_exposed_witness:
  "findOne ''bob@eco.org'' (users demo_db) = Some demo_bob
   \<and> demo_compare ''B'' (password demo_bob)
   \<and> fst (post_login demo_compare demo_db
        \<lparr>body_email = ''bob@eco.org'', body_password = JSString ''B''\<rparr>)
       = respond 200 (JObj [(''message'', JStr ''Login successful''),
                            (''user'', JObj [(''email'', JStr ''bob@eco.org''),
                                             (''xp'', JNum 150),
                                             (''streak'', JNum 3),
                                             (''badges'', JArr [])])])
   \<and> fst (post_login demo_compare (rehash (\<lambda>u. ''$2a$10$Z'') demo_db)
          \<lparr>body_email = ''bob@eco.org'', body_password = JSString ''Z''\<rparr>)
       = fst (post_login demo_compare demo_db
          \<lparr>body_email = ''bob@eco.org'', body_password = JSString ''B''\<rparr>)
   \<and> body (fst (get_leaderboard demo_db)) =
       JArr [JObj [(''_id'', JOid 2), (''email'', JStr ''bob@eco.org''), (''xp'', JNum 150),
                   (''badges'', JArr [])],
             JObj [(''_id'', JOid 1), (''email'', JStr ''alice@eco.org''), (''xp'', JNum 0),
                   (''badges'', JArr [])]]"
proof -
  have bob: "findOne ''bob@eco.org'' (users demo_db) = Some demo_bob"
    by (simp add: findOne_def demo_db_def demo_alice_def demo_bob_def)
  have right: "demo_compare ''B'' (password demo_bob)" "demo_compare ''Z'' ''$2a$10$Z''"
    by (simp_all add: demo_compare_def demo_bob_def)
  have agg: "aggregate (users demo_db) = [project demo_bob, project demo_alice]"
    by (simp add: aggregate_def demo_db_def project_def demo_alice_def demo_bob_def)
  from password_not_exposed[of
      "\<lparr>body_email = ''bob@eco.org'', body_password = JSString ''B''\<rparr>"
      demo_db demo_bob "''B''" demo_compare
      "\<lparr>body_email = ''bob@eco.org'', body_password = JSString ''Z''\<rparr>" "''Z''"
      demo_compare "\<lambda>u. ''$2a$10$Z''"] bob right
  show ?thesis
    unfolding agg
    by (simp add: demo_bob_def demo_alice_def project_def entry_json_def strings_json_def)
qed

subsection \<open>The store invariant\<close>

lemma findOne_None_iff: "findOne e us = None \<longleftrightarrow> e \<notin> email ` set us"
  by (induction us) (auto simp: findOne_def)

lemma findOneAndUpdate_emails:
  "(\<And>u. email (f u) = email u) \<Longrightarrow> map email (findOneAndUpdate e f us) = map email us"
  by (induction us) simp_all

lemma wf_db_emails:
  "map email (users t) = map email (users s) \<Longrightarrow> wf_db s \<Longrightarrow> wf_db t"
proof -
  assume eq: "map email (users t) = map email (users s)" and wf: "wf_db s"
  have c: "wf_db r \<longleftrightarrow> [] \<notin> set (map email (users r)) \<and> distinct (map email (users r))" for r
    unfolding wf_db_def set_map by (simp add: image_iff) metis
  from wf show "wf_db t" unfolding c eq .
qed

lemma wf_db_empty: "wf_db \<lparr>users = [], pickups = [], pledges = []\<rparr>"
  by (simp add: wf_db_def)

lemma wf_db_register:
  assumes "wf_db s"
  shows "wf_db (snd (post_register hash now i s req))"
proof (cases "code (fst (post_register hash now i s req)) = 201")
  case True
  from post_register_created[OF True]
  obtain pw where none: "findOne (body_email req) (users s) = None"
    and s1: "snd (post_register hash now i s req) =
        s\<lparr>users := users s @ [\<lparr>user_id = i, email = body_email req,
            password = hash pw, xp = 0, streak = 0, badges = [], createdAt = now\<rparr>]\<rparr>"
    by blast
  from True have ne: "body_email req \<noteq> []"
    by (auto simp: post_register_def post_register_body_def try_catch_def respond_def Let_def
        save_user_def bcrypt_hash_def split: option.splits if_splits js_value.splits)
  from none have "body_email req \<notin> email ` set (users s)" by (simp add: findOne_None_iff)
  with assms ne show ?thesis unfolding s1 by (simp add: wf_db_def)
next
  case False
  then have "snd (post_register hash now i s req) = s"
    by (auto simp: post_register_def post_register_body_def try_catch_def respond_def Let_def
        save_user_def bcrypt_hash_def split: option.splits if_splits js_value.splits)
  with assms show ?thesis by simp
qed

lemma wf_db_handlers:
  assumes "wf_db s"
  shows "wf_db (snd (post_login compare s req))"
    and "wf_db (snd (post_pickups now i s preq))"
    and "wf_db (snd (get_pickups s e))"
    and "wf_db (snd (put_complete s param))"
    and "wf_db (snd (post_pledges now i s plreq))"
    and "wf_db (snd (get_pledges s))"
    and "wf_db (snd (get_stats s e))"
    and "wf_db (snd (get_leaderboard s))"
    and "wf_db (snd (get_goal s))"
proof -
  show "wf_db (snd (post_login compare s req))"
    using assms
    by (simp add: post_login_def post_login_body_def try_catch_def Let_def
        split: option.splits sum.splits)
  show "wf_db (snd (post_pickups now i s preq))"
    by (rule wf_db_emails[OF _ assms])
      (simp add: post_pickups_def post_pickups_body_def try_catch_def Let_def save_pickup_def
        findOneAndUpdate_emails)
  show "wf_db (snd (get_pickups s e))"
    using assms by (simp add: get_pickups_def try_catch_def)
  show "wf_db (snd (put_complete s param))"
    by (rule wf_db_emails[OF _ assms])
      (simp add: put_complete_def put_complete_body_def try_catch_def Let_def
        findOneAndUpdate_emails split: option.splits prod.splits)
  show "wf_db (snd (post_pledges now i s plreq))"
    by (rule wf_db_emails[OF _ assms])
      (simp add: post_pledges_def post_pledges_body_def try_catch_def Let_def save_pledge_def
        findOneAndUpdate_emails)
  show "wf_db (snd (get_pledges s))"
    using assms by (simp add: get_pledges_def try_catch_def)
  show "wf_db (snd (get_stats s e))"
    by (rule wf_db_emails[OF _ assms])
      (simp add: get_stats_def get_stats_body_def try_catch_def Let_def reconcileBadges_def
        findOneAndUpdate_emails split: option.splits)
  show "wf_db (snd (get_leaderboard s))"
    using assms by (simp add: get_leaderboard_def try_catch_def)
  show "wf_db (snd (get_goal s))"
    using assms by (simp add: get_goal_def try_catch_def)
qed

subsection \<open>The stats response\<close>

lemma get_stats_response:
  assumes "findOne e (users s) = Some u"
  shows "fst (get_stats s e) =
     respond 200 (JObj
       [(''itemsRecycled'', JNum (of_nat (itemsRecycled (computeImpact [p\<leftarrow>pickups s. pickup_user p = e])))),
        (''totalWeight'', JNum (displayWeight (totalWeight (computeImpact [p\<leftarrow>pickups s. pickup_user p = e])))),
        (''carbonOffset'', JNum (of_int (carbonOffset (computeImpact [p\<leftarrow>pickups s. pickup_user p = e])))),
        (''xpEarned'', JNum (of_int (xp u))),
        (''totalPickups'', JNum (of_nat (length [p\<leftarrow>pickups s. pickup_user p = e]))),
        (''streakDays'', JNum (of_int (streak u))),
        (''badgesEarned'', JStr (if deriveBadges (xp u) = [] then ''None''
                                 else join '', '' (deriveBadges (xp u))))])"
  using assms
  by (simp add: get_stats_def get_stats_body_def try_catch_def Let_def)

lemma get_stats_example:
  "fst (get_stats demo_db ''bob@eco.org'') =
     respond 200 (JObj
       [(''itemsRecycled'', JNum 2), (''totalWeight'', JNum 1), (''carbonOffset'', JNum 3),
        (''xpEarned'', JNum 150), (''totalPickups'', JNum 1), (''streakDays'', JNum 3),
        (''badgesEarned'', JStr ''Plastic Buster'')])"
  by code_simp

end
